theory Spec2Isabelle
  imports Complex_Main
begin

section \<open>The star tracker service of \<^verbatim>\<open>startracker.py\<close>\<close>

text \<open>
  The development embeds the two classes of \<^verbatim>\<open>src/startracker/startracker.py\<close>:
  \<^verbatim>\<open>StarTracker\<close> (capture, preprocess, solve, modify, error) and
  \<^verbatim>\<open>StarTrackerServer\<close> (the worker loop \<^verbatim>\<open>star_tracker\<close> and the
  D-Bus properties \<^verbatim>\<open>coor\<close>, \<^verbatim>\<open>filepath\<close>, \<^verbatim>\<open>last_solve\<close>).

  Python floats are modelled as \<open>real\<close>; the comparisons the code makes
  (\<^verbatim>\<open>blur != 0\<close>, \<^verbatim>\<open>blur < 5\<close>, \<^verbatim>\<open>p_match > 0.99\<close>, \<^verbatim>\<open>== 0.0\<close>)
  are read on the exact values. What OpenCV, numpy, the file system, the random
  generator, the clock and the \<^verbatim>\<open>beast\<close> matching engine compute is not code of
  this repository: those calls are parameters of the model, collected in the records
  \<open>cv2\<close>, \<open>beast\<close> and \<open>world\<close>. The debug prints guarded by
  \<^verbatim>\<open>DEBUG_ENABLED\<close> only write to standard output and are left out.
\<close>

subsection \<open>Python values and exceptions\<close>

datatype py_error =
    AttributeError
  | ValueError
  | NameError
  | UnboundLocalError
  | IndexError
  | TypeError

text \<open>The fourth component that \<^verbatim>\<open>solve\<close> returns is a Python object that
  is either a float or a module.\<close>

datatype pyval = Float real | Module string

subsection \<open>Images and the OpenCV calls\<close>

text \<open>A colour frame as \<^verbatim>\<open>cv2.imread\<close> returns it: a numpy array with its
  \<^verbatim>\<open>shape\<close> and its bytes. A single-channel image is a list of rows of
  luminance values.\<close>

record image =
  shape :: "nat list"
  bytes :: "nat list"

type_synonym gray = "nat list list"

type_synonym contour = "(int \<times> int) list"

record moments =
  m00 :: real
  m10 :: real
  m01 :: real
  m20 :: real
  m02 :: real
  m11 :: real

record cv2 =
  cvtColor :: "image \<Rightarrow> gray"
  Laplacian_var :: "gray \<Rightarrow> real"
  clip_subtract :: "image \<Rightarrow> image \<Rightarrow> image"
  findContours :: "gray \<Rightarrow> contour list"
  moments_of :: "contour \<Rightarrow> moments"
  getRectSubPix :: "gray \<Rightarrow> real \<Rightarrow> real \<Rightarrow> real"

text \<open>\<^verbatim>\<open>cv2.threshold(img, t, maxval, cv2.THRESH_BINARY)\<close>: a pixel above
  \<open>t\<close> becomes \<open>maxval\<close>, every other pixel 0. \<^verbatim>\<open>cv2.countNonZero\<close>
  counts the pixels that are not 0.\<close>

definition threshold :: "gray \<Rightarrow> real \<Rightarrow> nat \<Rightarrow> gray" where
  "threshold img t maxval = map (map (\<lambda>p. if real p > t then maxval else 0)) img"

definition countNonZero :: "gray \<Rightarrow> int" where
  "countNonZero img = int (sum_list (map (\<lambda>row. length (filter (\<lambda>p. p \<noteq> 0) row)) img))"

subsection \<open>The matching engine\<close>

datatype star = Star real real real int

datatype constellation_db = ConstellationDB "star list" int int

record match_winner =
  winner_size :: int
  R11 :: real
  R21 :: real
  R31 :: real
  get_dec :: real
  get_ra :: real
  get_ori :: real

record db_match_result =
  p_match :: real
  winner :: match_winner

text \<open>\<open>from_kdresults\<close> is what \<^verbatim>\<open>SQ_RESULTS.from_kdresults()\<close> returns after
  \<^verbatim>\<open>SQ_RESULTS.kdsearch(x, y, z, r, t)\<close>, and \<open>r_size\<close> what
  \<^verbatim>\<open>C_DB.results.r_size()\<close> returns after \<^verbatim>\<open>C_DB.results.kdsearch(x, y, z, r, t)\<close>.\<close>

record beast =
  THRESH_FACTOR :: real
  IMAGE_VARIANCE :: real
  IMG_X :: real
  IMG_Y :: real
  MAX_FALSE_STARS :: int
  REQUIRED_STARS :: int
  MAXFOV :: real
  copy_n_brightest :: "star list \<Rightarrow> int \<Rightarrow> star list"
  db_match :: "constellation_db \<Rightarrow> constellation_db \<Rightarrow> db_match_result"
  from_kdresults :: "real \<Rightarrow> real \<Rightarrow> real \<Rightarrow> real \<Rightarrow> real \<Rightarrow> star list"
  r_size :: "real \<Rightarrow> real \<Rightarrow> real \<Rightarrow> real \<Rightarrow> real \<Rightarrow> int"

subsection \<open>What one loop iteration reads from outside\<close>

text \<open>\<open>glob\<close> is \<^verbatim>\<open>glob.glob\<close>, \<open>choice\<close> the index \<^verbatim>\<open>random.choice\<close>
  draws, \<open>imread\<close> is \<^verbatim>\<open>cv2.imread\<close> (None for a file it cannot decode),
  \<open>time_time k\<close> the value of the \<open>k\<close>-th call of \<^verbatim>\<open>time.time()\<close> in the
  iteration, and \<open>end_called\<close> says whether \<^verbatim>\<open>StarTrackerServer.end\<close> has
  cleared \<^verbatim>\<open>st_running\<close> before the loop tests it.\<close>

record world =
  glob :: "string \<Rightarrow> string list"
  choice :: nat
  imread :: "string \<Rightarrow> image option"
  time_time :: "nat \<Rightarrow> real"
  end_called :: bool

record env =
  cv :: cv2
  engine :: beast
  outside :: world

subsection \<open>\<^verbatim>\<open>class StarTracker\<close>\<close>

text \<open>The tracker after \<^verbatim>\<open>startup\<close>: the fields \<^verbatim>\<open>__init__\<close> creates
  and \<^verbatim>\<open>startup\<close> fills. \<^verbatim>\<open>SAMPLE_DIR\<close> stays \<^verbatim>\<open>None\<close> when no
  sample directory is passed. \<^verbatim>\<open>MEDIAN_IMAGE\<close> is what \<^verbatim>\<open>cv2.imread\<close>
  returned for the median image in line 66, which is \<^verbatim>\<open>None\<close> for a file it could
  not read.\<close>

record StarTracker =
  P_MATCH_THRESH :: real
  YEAR :: real
  SAMPLE_DIR :: "string option"
  MEDIAN_IMAGE :: "image option"
  C_DB :: constellation_db

text \<open>\<^verbatim>\<open>capture\<close> (lines 86-108). \<^verbatim>\<open>random.choice\<close> raises
  \<^verbatim>\<open>IndexError\<close> on an empty list.\<close>

definition capture :: "StarTracker \<Rightarrow> world \<Rightarrow> py_error + (string option \<times> image option)" where
  "capture self w =
     (case SAMPLE_DIR self of
        Some d \<Rightarrow>
          (case glob w (d @ ''*'') of
             [] \<Rightarrow> Inl IndexError
           | f # fs \<Rightarrow>
               (let path = (f # fs) ! (choice w mod length (f # fs))
                in Inr (Some path, imread w path)))
      | None \<Rightarrow> Inr (None, None))"

text \<open>\<^verbatim>\<open>preprocess\<close> (lines 111-146). \<^verbatim>\<open>img.shape\<close> raises
  \<^verbatim>\<open>AttributeError\<close> when \<^verbatim>\<open>img\<close> is \<^verbatim>\<open>None\<close>, and unpacking it
  into three names raises \<^verbatim>\<open>ValueError\<close> unless it has three entries.
  \<^verbatim>\<open>int(total_pixels * 0.99996744)\<close> truncates a non-negative product, so
  it is the floor; the product is taken exactly, without the rounding of a double.\<close>

definition preprocess :: "cv2 \<Rightarrow> image option \<Rightarrow> py_error + string" where
  "preprocess c img =
     (case img of
        None \<Rightarrow> Inl AttributeError
      | Some im \<Rightarrow>
          (case shape im of
             [height, width, channels] \<Rightarrow>
               (let total_pixels = int height * int width;
                    blur_check = \<lfloor>real_of_int total_pixels * 0.99996744\<rfloor>;
                    too_many_check = \<lfloor>real_of_int total_pixels * 0.99918619\<rfloor>;
                    img_gray = cvtColor c im;
                    thresholded = threshold img_gray 80 255;
                    threshold_black = total_pixels - countNonZero thresholded
                in if threshold_black > blur_check then
                     (let blur = Laplacian_var c img_gray
                      in if blur \<noteq> 0 \<and> blur < 5 then Inr ''image too blurry''
                         else Inr ''image contains too few stars'')
                   else if threshold_black < too_many_check then Inr ''unsuitable image''
                   else Inr ''good'')
           | _ \<Rightarrow> Inl ValueError))"

text \<open>The loop over the contours in \<^verbatim>\<open>solve\<close> (lines 173-189): a contour of
  positive area adds one star, placed relative to the image centre, with the grey value
  at its centroid as brightness.\<close>

fun process_contours :: "cv2 \<Rightarrow> beast \<Rightarrow> gray \<Rightarrow> contour list \<Rightarrow> star list \<Rightarrow> star list" where
  "process_contours c b img_grey [] img_stars = img_stars"
| "process_contours c b img_grey (k # ks) img_stars =
     (let M = moments_of c k
      in if m00 M > 0 then
           (let cx = m10 M / m00 M;
                cy = m01 M / m00 M
            in process_contours c b img_grey ks
                 (img_stars @ [Star (cx - IMG_X b / 2) (cy - IMG_Y b / 2)
                                    (getRectSubPix c img_grey cx cy) (- 1)]))
         else process_contours c b img_grey ks img_stars)"

text \<open>numpy's rule for the shapes of the two operands of an arithmetic operation:
  read from the last dimension backwards, two dimensions fit when they are equal or
  one of them is 1; the dimensions one shape has more than the other are free.\<close>

fun broadcast_dims :: "nat list \<Rightarrow> nat list \<Rightarrow> bool" where
  "broadcast_dims [] bs = True"
| "broadcast_dims (a # as) [] = True"
| "broadcast_dims (a # as) (b # bs) = ((a = b \<or> a = 1 \<or> b = 1) \<and> broadcast_dims as bs)"

definition broadcastable :: "nat list \<Rightarrow> nat list \<Rightarrow> bool" where
  "broadcastable sa sb = broadcast_dims (rev sa) (rev sb)"

text \<open>Line 165 of \<^verbatim>\<open>solve\<close>,
  \<^verbatim>\<open>np.clip(orig_img.astype(np.int16) - self.MEDIAN_IMAGE, a_min = 0, a_max = 255).astype(np.uint8)\<close>:
  subtracting \<^verbatim>\<open>None\<close> from an array raises \<^verbatim>\<open>TypeError\<close>, and subtracting
  an array whose shape does not fit raises \<^verbatim>\<open>ValueError\<close>; otherwise the clipped
  difference is what numpy computes (\<open>clip_subtract\<close>).\<close>

definition subtract_median :: "StarTracker \<Rightarrow> cv2 \<Rightarrow> image \<Rightarrow> py_error + image" where
  "subtract_median self c orig_img =
     (case MEDIAN_IMAGE self of
        None \<Rightarrow> Inl TypeError
      | Some median \<Rightarrow>
          if broadcastable (shape orig_img) (shape median)
          then Inr (clip_subtract c orig_img median)
          else Inl ValueError)"

text \<open>Lines 166-189 of \<^verbatim>\<open>solve\<close>: the residual is turned to grey and binarised
  at \<^verbatim>\<open>THRESH_FACTOR * IMAGE_VARIANCE\<close>, and the contours found become the stars
  of the image.\<close>

definition detect_stars :: "env \<Rightarrow> image \<Rightarrow> star list" where
  "detect_stars e img =
     (let img_grey = cvtColor (cv e) img;
          thresh = threshold img_grey (THRESH_FACTOR (engine e) * IMAGE_VARIANCE (engine e)) 255;
          contours = findContours (cv e) thresh
      in process_contours (cv e) (engine e) img_grey contours [])"

text \<open>Lines 192-194: the match of the brightest stars against the full-sky index
  (\<^verbatim>\<open>lis\<close>).\<close>

definition coarse_match :: "StarTracker \<Rightarrow> beast \<Rightarrow> star list \<Rightarrow> db_match_result" where
  "coarse_match self b img_stars =
     (let img_stars_n_brightest = copy_n_brightest b img_stars (MAX_FALSE_STARS b + REQUIRED_STARS b);
          img_const_n_brightest = ConstellationDB img_stars_n_brightest (MAX_FALSE_STARS b + 2) 1
      in db_match b (C_DB self) img_const_n_brightest)"

text \<open>Lines 199-213: the match of all stars against the index of the field of view
  around the coarse rotation (\<^verbatim>\<open>near\<close>).\<close>

definition refined_match :: "beast \<Rightarrow> star list \<Rightarrow> db_match_result \<Rightarrow> db_match_result" where
  "refined_match b img_stars lis =
     (let x = R11 (winner lis);
          y = R21 (winner lis);
          z = R31 (winner lis);
          r = MAXFOV b / 2;
          t = THRESH_FACTOR b * IMAGE_VARIANCE b;
          fov_stars = from_kdresults b x y z r t;
          fov_db = ConstellationDB fov_stars (r_size b x y z r t) 1;
          img_const = ConstellationDB img_stars (MAX_FALSE_STARS b + 2) 1
      in db_match b fov_db img_const)"

text \<open>Lines 161 and 197-216: the value of the variable \<^verbatim>\<open>match\<close> when line 222
  tests it.\<close>

definition generate_match :: "StarTracker \<Rightarrow> beast \<Rightarrow> star list \<Rightarrow> db_match_result option" where
  "generate_match self b img_stars =
     (let lis = coarse_match self b img_stars
      in if p_match lis > P_MATCH_THRESH self \<and> winner_size (winner lis) \<ge> REQUIRED_STARS b then
           (let near = refined_match b img_stars lis
            in if p_match near > P_MATCH_THRESH self then Some near else None)
         else None)"

text \<open>\<^verbatim>\<open>solve\<close> (lines 149-238). \<^verbatim>\<open>orig_img.astype\<close> raises
  \<^verbatim>\<open>AttributeError\<close> on \<^verbatim>\<open>None\<close>, and an exception of line 165 leaves
  the function. Line 238 returns the name \<^verbatim>\<open>time\<close>,
  which is the module imported in line 8; \<^verbatim>\<open>runtime\<close> is computed in line
  231 and not used.\<close>

definition solve :: "StarTracker \<Rightarrow> env \<Rightarrow> image option \<Rightarrow> py_error + (real \<times> real \<times> real \<times> pyval)" where
  "solve self e orig_img =
     (case orig_img of
        None \<Rightarrow> Inl AttributeError
      | Some orig \<Rightarrow>
          (let starttime = time_time (outside e) 0
           in case subtract_median self (cv e) orig of
                Inl x \<Rightarrow> Inl x
              | Inr img \<Rightarrow>
                  (let img_stars = detect_stars e img;
                       match = generate_match self (engine e) img_stars;
                       (dec, ra, ori) =
                         (case match of
                            Some m \<Rightarrow> (get_dec (winner m), get_ra (winner m), get_ori (winner m))
                          | None \<Rightarrow> (0, 0, 0));
                       runtime = time_time (outside e) 1 - starttime
                   in Inr (dec, ra, ori, Module ''time''))))"

subsection \<open>What the worker loop does, as a trace\<close>

text \<open>The calls, assignments and signals of the worker loop, in the order they
  happen. \<open>Assign_p_solve\<close> is the assignment to \<^verbatim>\<open>self.p_solve\<close> in line 327,
  \<open>Assign_solution\<close> the assignment to \<^verbatim>\<open>self.dec, self.ra, self.ori, self.l_solve\<close>
  in line 340, and \<open>Assign_t_solve\<close> the assignment to \<^verbatim>\<open>self.t_solve\<close> in
  line 350.
  \<open>Emit_error\<close> is the D-Bus signal \<^verbatim>\<open>error\<close> of the server class and
  \<open>Emit_PropertiesChanged\<close> its signal \<^verbatim>\<open>PropertiesChanged\<close>, with the
  value sent for \<^verbatim>\<open>filepath\<close>; \<open>Call_global f x\<close> is the call of a module-level
  name \<open>f\<close>; \<open>Sleep\<close> is \<^verbatim>\<open>time.sleep\<close>.\<close>

datatype event =
    Acquire
  | Release
  | Call_capture
  | Call_preprocess
  | Call_solve
  | Assign_p_solve "string option"
  | Assign_solution real real real pyval
  | Assign_t_solve real
  | Call_error string
  | Call_modify string
  | Log_warning string
  | Log_error string
  | Call_global string string
  | Emit_error string
  | Emit_PropertiesChanged "string option"
  | Sleep real

text \<open>\<^verbatim>\<open>StarTracker.modify\<close> (lines 241-251) changes nothing and returns 0;
  \<^verbatim>\<open>StarTracker.error\<close> (lines 254-271) calls it for two of the verdicts.\<close>

definition modify :: "string \<Rightarrow> event list" where
  "modify mod_string = [Call_modify mod_string]"

definition error :: "string \<Rightarrow> event list" where
  "error err_string =
     Call_error err_string #
       (if err_string = ''image too blurry'' then modify ''more sharp''
        else if err_string = ''image contains too few stars'' then modify ''increase gain''
        else [])"

text \<open>The names bound at module level (the imports, \<^verbatim>\<open>logger\<close>,
  \<^verbatim>\<open>journald_handler\<close>, the two debug variables, the two classes and, when the file
  is run as a script, \<^verbatim>\<open>server\<close>, \<^verbatim>\<open>db_root\<close> and \<^verbatim>\<open>data_root\<close>).
  A name that a function reads without assigning it is looked up here (neither
  \<^verbatim>\<open>p_solve\<close> nor \<^verbatim>\<open>error\<close> is a builtin) and raises
  \<^verbatim>\<open>NameError\<close> when it is not bound.\<close>

definition module_globals :: "string list" where
  "module_globals =
     [''sys'', ''time'', ''threading'', ''glob'', ''random'', ''logging'', ''np'', ''cv2'',
      ''signal'', ''SystemBus'', ''GLib'', ''journal'', ''beast'', ''logger'',
      ''journald_handler'', ''DEBUG_ENABLED'', ''STACK_LAYERS'', ''StarTracker'',
      ''StarTrackerServer'', ''server'', ''db_root'', ''data_root'']"

definition load_global :: "string \<Rightarrow> py_error + unit" where
  "load_global name = (if name \<in> set module_globals then Inr () else Inl NameError)"

subsection \<open>\<^verbatim>\<open>class StarTrackerServer\<close>\<close>

text \<open>The properties of the server (lines 301-313). \<open>st_lock\<close> is True while the
  \<^verbatim>\<open>threading.Lock\<close> is held.\<close>

record StarTrackerServer =
  dec :: real
  ra :: real
  ori :: real
  l_solve :: pyval
  t_solve :: real
  p_solve :: "string option"
  st :: StarTracker
  st_lock :: bool
  st_running :: bool

definition init :: "StarTracker \<Rightarrow> StarTrackerServer" where
  "init tracker =
     \<lparr>dec = 0, ra = 0, ori = 0, l_solve = Float 0, t_solve = 0, p_solve = Some [],
      st = tracker, st_lock = False, st_running = True\<rparr>"

text \<open>How one pass through the loop body ends: it reaches the end of the body or a
  \<^verbatim>\<open>continue\<close>, an exception leaves the thread's function, or
  \<^verbatim>\<open>st_lock.acquire()\<close> waits for a lock that is held. \<open>Exited\<close> is the loop
  condition found false.\<close>

datatype outcome =
    Continue StarTrackerServer "event list"
  | Raised py_error StarTrackerServer "event list"
  | Blocked StarTrackerServer "event list"
  | Exited StarTrackerServer "event list"

text \<open>Lines 333-337, the branch for a verdict other than \<^verbatim>\<open>"good"\<close>.\<close>

definition rejected :: "StarTrackerServer \<Rightarrow> event list \<Rightarrow> string \<Rightarrow> outcome" where
  "rejected s tr check =
     (let tr1 = tr @ error check
      in case load_global ''p_solve'' of
           Inl x \<Rightarrow> Raised x s tr1
         | Inr _ \<Rightarrow>
             (let tr2 = tr1 @ [Log_warning check]
              in case load_global ''error'' of
                   Inl x \<Rightarrow> Raised x s tr2
                 | Inr _ \<Rightarrow> Continue s (tr2 @ [Call_global ''error'' check, Sleep 0.5])))"

text \<open>Lines 343-347, the branch for an all-zero solution.\<close>

definition bad_solve :: "StarTrackerServer \<Rightarrow> event list \<Rightarrow> outcome" where
  "bad_solve s tr =
     (let tr1 = tr @ error ''bad solve''
      in case load_global ''p_solve'' of
           Inl x \<Rightarrow> Raised x s tr1
         | Inr _ \<Rightarrow>
             (let tr2 = tr1 @ [Log_error ''bad solve'']
              in case load_global ''error'' of
                   Inl x \<Rightarrow> Raised x s tr2
                 | Inr _ \<Rightarrow> Continue s (tr2 @ [Call_global ''error'' ''bad solve'', Sleep 0.5])))"

text \<open>The loop body (lines 326-355).\<close>

definition iteration :: "env \<Rightarrow> StarTrackerServer \<Rightarrow> outcome" where
  "iteration e s =
     (if st_lock s then Blocked s []
      else
        (let s1 = s\<lparr>st_lock := True\<rparr>;
             tr1 = [Acquire, Call_capture]
         in case capture (st s1) (outside e) of
              Inl x \<Rightarrow> Raised x s1 tr1
            | Inr (path, img) \<Rightarrow>
                (let s2 = s1\<lparr>p_solve := path\<rparr>;
                     tr2 = tr1 @ [Assign_p_solve path, Call_preprocess]
                 in case preprocess (cv e) img of
                      Inl x \<Rightarrow> Raised x s2 tr2
                    | Inr check \<Rightarrow>
                        if check \<noteq> ''good'' then rejected s2 tr2 check
                        else
                          (let tr3 = tr2 @ [Call_solve]
                           in case solve (st s2) e img of
                                Inl x \<Rightarrow> Raised x s2 tr3
                              | Inr (d, r, o', l) \<Rightarrow>
                                  (let s3 = s2\<lparr>dec := d, ra := r, ori := o', l_solve := l\<rparr>;
                                       tr4 = tr3 @ [Assign_solution d r o' l]
                                   in if dec s3 = ra s3 \<and> ra s3 = ori s3 \<and> ori s3 = 0
                                      then bad_solve s3 tr4
                                      else
                                        (let s4 = s3\<lparr>t_solve := time_time (outside e) 2\<rparr>;
                                             tr5 = tr4 @ [Assign_t_solve (t_solve s4)];
                                             s5 = s4\<lparr>st_lock := False\<rparr>
                                         in Continue s5
                                              (tr5 @ [Release,
                                                      Emit_PropertiesChanged (p_solve s5),
                                                      Sleep 0.5])))))))"

text \<open>The loop \<^verbatim>\<open>while (self.st_running)\<close> (line 323), run on the inputs of
  finitely many iterations; it is still running when they are used up.\<close>

fun prepend :: "event list \<Rightarrow> outcome \<Rightarrow> outcome" where
  "prepend tr (Continue s tr') = Continue s (tr @ tr')"
| "prepend tr (Raised x s tr') = Raised x s (tr @ tr')"
| "prepend tr (Blocked s tr') = Blocked s (tr @ tr')"
| "prepend tr (Exited s tr') = Exited s (tr @ tr')"

fun star_tracker :: "env list \<Rightarrow> StarTrackerServer \<Rightarrow> outcome" where
  "star_tracker [] s = Continue s []"
| "star_tracker (e # es) s =
     (let s0 = (if end_called (outside e) then s\<lparr>st_running := False\<rparr> else s)
      in if \<not> st_running s0 then Exited s0 []
         else
           (case iteration e s0 of
              Continue s' tr \<Rightarrow> prepend tr (star_tracker es s')
            | Raised x s' tr \<Rightarrow> Raised x s' tr
            | Blocked s' tr \<Rightarrow> Blocked s' tr
            | Exited s' tr \<Rightarrow> Exited s' tr))"

fun state_of :: "outcome \<Rightarrow> StarTrackerServer" where
  "state_of (Continue s tr) = s"
| "state_of (Raised x s tr) = s"
| "state_of (Blocked s tr) = s"
| "state_of (Exited s tr) = s"

fun trace_of :: "outcome \<Rightarrow> event list" where
  "trace_of (Continue s tr) = tr"
| "trace_of (Raised x s tr) = tr"
| "trace_of (Blocked s tr) = tr"
| "trace_of (Exited s tr) = tr"

text \<open>Each event of a trace with the state of the lock while it happens.\<close>

fun lock_after :: "bool \<Rightarrow> event \<Rightarrow> bool" where
  "lock_after h Acquire = True"
| "lock_after h Release = False"
| "lock_after h ev = h"

fun held_during :: "bool \<Rightarrow> event list \<Rightarrow> (event \<times> bool) list" where
  "held_during h [] = []"
| "held_during h (ev # evs) = (ev, lock_after h ev) # held_during (lock_after h ev) evs"

text \<open>The events that write a field of the published record.\<close>

fun is_assignment :: "event \<Rightarrow> bool" where
  "is_assignment (Assign_p_solve p) = True"
| "is_assignment (Assign_solution d r o' l) = True"
| "is_assignment (Assign_t_solve t) = True"
| "is_assignment ev = False"

text \<open>The three properties (lines 406-428), called from the D-Bus thread. A call
  returns a value, raises, or waits for the lock. In \<^verbatim>\<open>last_solve\<close> the
  assignment \<^verbatim>\<open>p_solve = p_solve\<close> makes \<^verbatim>\<open>p_solve\<close> a local name that is read
  before it is bound; the exception leaves the lock held.\<close>

datatype 'a reply = Returns 'a | Raises py_error | Waits

definition coor :: "StarTrackerServer \<Rightarrow> (real \<times> real \<times> real \<times> real) reply \<times> StarTrackerServer" where
  "coor s =
     (if st_lock s then (Waits, s)
      else (Returns (dec s, ra s, ori s, t_solve s), s))"

definition filepath :: "StarTrackerServer \<Rightarrow> string option reply \<times> StarTrackerServer" where
  "filepath s =
     (if st_lock s then (Waits, s)
      else (Returns (p_solve s), s))"

definition last_solve :: "StarTrackerServer \<Rightarrow> (real \<times> real \<times> real \<times> real \<times> string option) reply \<times> StarTrackerServer" where
  "last_solve s =
     (if st_lock s then (Waits, s)
      else (Raises UnboundLocalError, s\<lparr>st_lock := True\<rparr>))"

subsection \<open>Concrete inputs\<close>

text \<open>Frames of two by two pixels, three bytes a pixel. With four pixels both
  calibration bounds of \<^verbatim>\<open>preprocess\<close> are 3: a frame with no bright pixel is
  overwhelmingly dark, one with exactly one bright pixel is good, and one with two or
  more is unsuitable.\<close>

definition frame_dark :: image where
  "frame_dark = \<lparr>shape = [2, 2, 3], bytes = [0, 0, 0, 0, 0, 0, 0, 0, 0, 0, 0, 0]\<rparr>"

definition frame_good :: image where
  "frame_good = \<lparr>shape = [2, 2, 3], bytes = [200, 200, 200, 0, 0, 0, 0, 0, 0, 0, 0, 0]\<rparr>"

definition frame_bright :: image where
  "frame_bright = \<lparr>shape = [2, 2, 3], bytes = [200, 200, 200, 200, 200, 200, 200, 200, 200, 200, 200, 200]\<rparr>"

text \<open>A frame of four by four pixels, all dark: its shape does not fit the median
  image of the example tracker, which is \<open>frame_dark\<close>.\<close>

definition frame_large :: image where
  "frame_large =
     \<lparr>shape = [4, 4, 3],
      bytes = [0, 0, 0, 0, 0, 0, 0, 0, 0, 0, 0, 0, 0, 0, 0, 0, 0, 0, 0, 0, 0, 0, 0, 0,
               0, 0, 0, 0, 0, 0, 0, 0, 0, 0, 0, 0, 0, 0, 0, 0, 0, 0, 0, 0, 0, 0, 0, 0]\<rparr>"

fun luma :: "nat list \<Rightarrow> nat list" where
  "luma (r # g # b # rest) = ((r + g + b) div 3) # luma rest"
| "luma rest = []"

text \<open>A stand-in for OpenCV on these frames: the grey image has two rows of two
  pixels, each the mean of its three bytes, the Laplacian variance is the given number, subtracting the median leaves
  the frame as it is, and one contour of area 1 is found at the origin.\<close>

definition example_cv :: "real \<Rightarrow> cv2" where
  "example_cv blur =
     \<lparr>cvtColor = (\<lambda>im. [luma (take 6 (bytes im)), luma (drop 6 (bytes im))]),
      Laplacian_var = (\<lambda>g. blur),
      clip_subtract = (\<lambda>a b. a),
      findContours = (\<lambda>g. [[(0, 0)]]),
      moments_of = (\<lambda>k. \<lparr>m00 = 1, m10 = 0, m01 = 0, m20 = 0, m02 = 0, m11 = 0\<rparr>),
      getRectSubPix = (\<lambda>g px py. 200)\<rparr>"

definition sky_db :: constellation_db where
  "sky_db = ConstellationDB [] 2 0"

definition example_match :: "real \<Rightarrow> real \<Rightarrow> real \<Rightarrow> real \<Rightarrow> db_match_result" where
  "example_match p d r o' =
     \<lparr>p_match = p,
      winner = \<lparr>winner_size = 6, R11 = 1, R21 = 0, R31 = 0,
                get_dec = d, get_ra = r, get_ori = o'\<rparr>\<rparr>"

text \<open>A stand-in for the engine: the match against the full-sky index returns
  \<open>lis\<close>, the match against any other index returns \<open>near\<close>.\<close>

definition example_beast :: "db_match_result \<Rightarrow> db_match_result \<Rightarrow> beast" where
  "example_beast lis near =
     \<lparr>THRESH_FACTOR = 5, IMAGE_VARIANCE = 2, IMG_X = 2, IMG_Y = 2,
      MAX_FALSE_STARS = 2, REQUIRED_STARS = 5, MAXFOV = 20,
      copy_n_brightest = (\<lambda>stars n. take (nat n) stars),
      db_match = (\<lambda>db img. if db = sky_db then lis else near),
      from_kdresults = (\<lambda>x y z r t. []),
      r_size = (\<lambda>x y z r t. 3)\<rparr>"

definition example_world :: "nat \<Rightarrow> real \<Rightarrow> world" where
  "example_world k t0 =
     \<lparr>glob = (\<lambda>pat. if pat = ''samples/*''
                     then [''samples/dark.png'', ''samples/good.png'', ''samples/bright.png'',
                           ''samples/good2.png'']
                     else []),
      choice = k,
      imread = (\<lambda>path. if path = ''samples/dark.png'' then Some frame_dark
                        else if path = ''samples/good.png'' then Some frame_good
                        else if path = ''samples/bright.png'' then Some frame_bright
                        else if path = ''samples/good2.png'' then Some frame_good
                        else None),
      time_time = (\<lambda>j. t0 + real j),
      end_called = False\<rparr>"

definition example_env :: "db_match_result \<Rightarrow> db_match_result \<Rightarrow> nat \<Rightarrow> real \<Rightarrow> env" where
  "example_env lis near k t0 =
     \<lparr>cv = example_cv 0, engine = example_beast lis near, outside = example_world k t0\<rparr>"

text \<open>The tracker as \<^verbatim>\<open>__init__\<close> and \<^verbatim>\<open>startup\<close> leave it, with and
  without a sample directory.\<close>

definition example_tracker :: "string option \<Rightarrow> StarTracker" where
  "example_tracker dir =
     \<lparr>P_MATCH_THRESH = 0.99, YEAR = 1991.25, SAMPLE_DIR = dir,
      MEDIAN_IMAGE = Some frame_dark, C_DB = sky_db\<rparr>"

text \<open>A server whose tracker plays back the sample directory, and one whose tracker
  has none.\<close>

definition server_samples :: StarTrackerServer where
  "server_samples = init (example_tracker (Some ''samples/''))"

definition server_live :: StarTrackerServer where
  "server_live = init (example_tracker None)"

text \<open>The server after one published solve of the good frame (angles 1, 2, 3, solve
  timestamp 102).\<close>

definition server_solved :: StarTrackerServer where
  "server_solved =
     server_samples\<lparr>dec := 1, ra := 2, ori := 3, l_solve := Module ''time'', t_solve := 102,
                     p_solve := Some ''samples/good.png''\<rparr>"

text \<open>The inputs of single iterations: \<open>env_good\<close> draws the good frame and both
  matches are accepted with angles 1, 2, 3; \<open>env_good2\<close> draws the second good
  frame, with angles 4, 5, 6; \<open>env_dark\<close> and \<open>env_bright\<close> draw the dark and the
  bright frame; in \<open>env_refused\<close> the coarse match stays below the bar; in
  \<open>env_refined_refused\<close> only the refined match does; in \<open>env_zero\<close> both matches
  are accepted and the three angles are 0.\<close>

definition env_good :: env where
  "env_good = example_env (example_match 1 1 2 3) (example_match 1 1 2 3) 1 100"

definition env_good2 :: env where
  "env_good2 = example_env (example_match 1 4 5 6) (example_match 1 4 5 6) 3 200"

definition env_dark :: env where
  "env_dark = example_env (example_match 1 1 2 3) (example_match 1 1 2 3) 0 100"

definition env_bright :: env where
  "env_bright = example_env (example_match 1 1 2 3) (example_match 1 1 2 3) 2 100"

definition env_refused :: env where
  "env_refused = example_env (example_match 0.5 1 2 3) (example_match 0.5 1 2 3) 1 100"

definition env_refined_refused :: env where
  "env_refined_refused = example_env (example_match 1 1 2 3) (example_match 0.5 1 2 3) 1 100"

definition env_zero :: env where
  "env_zero = example_env (example_match 1 0 0 0) (example_match 1 0 0 0) 1 100"

section \<open>Facts about the model\<close>

subsection \<open>The example inputs, evaluated\<close>

lemma shape_frames:
  "shape frame_dark = [2, 2, 3]" "shape frame_good = [2, 2, 3]" "shape frame_bright = [2, 2, 3]"
  "shape frame_large = [4, 4, 3]"
  by (simp_all add: frame_dark_def frame_good_def frame_bright_def frame_large_def)

lemma gray_dark: "cvtColor (example_cv blur) frame_dark = [[0, 0], [0, 0]]"
  by (simp add: example_cv_def frame_dark_def)

lemma gray_good: "cvtColor (example_cv blur) frame_good = [[200, 0], [0, 0]]"
  by (simp add: example_cv_def frame_good_def)

lemma gray_bright: "cvtColor (example_cv blur) frame_bright = [[200, 200], [200, 200]]"
  by (simp add: example_cv_def frame_bright_def)

lemma example_match_sel:
  "p_match (example_match p a b c) = p"
  "winner_size (winner (example_match p a b c)) = 6"
  "get_dec (winner (example_match p a b c)) = a"
  "get_ra (winner (example_match p a b c)) = b"
  "get_ori (winner (example_match p a b c)) = c"
  by (simp_all add: example_match_def)

lemma example_coarse:
  "coarse_match (example_tracker d) (engine env_refined_refused) stars = example_match 1 1 2 3"
  by (simp add: coarse_match_def env_refined_refused_def example_env_def example_beast_def
      example_tracker_def)

lemma example_refined:
  "refined_match (engine env_refined_refused) stars lis = example_match 0.5 1 2 3"
  by (simp add: refined_match_def env_refined_refused_def example_env_def example_beast_def
      sky_db_def)


subsection \<open>\<^verbatim>\<open>capture\<close>\<close>

text \<open>C10: when no sample directory is configured, \<^verbatim>\<open>capture\<close> returns the pair
  \<^verbatim>\<open>(None, None)\<close>, no source identifier and no frame; it raises nothing and reads
  nothing from outside (the result is the same for every \<open>world\<close>), so no live sensor
  capture is performed.\<close>

theorem capture_without_sample_dir:
  "SAMPLE_DIR self = None \<Longrightarrow> capture self w = Inr (None, None)"
  by (simp add: capture_def)

theorem capture_without_sample_dir_witness:
  "SAMPLE_DIR (example_tracker None) = None \<and>
   capture (example_tracker None) (example_world 1 100) = Inr (None, None)"
  using capture_without_sample_dir [of "example_tracker None" "example_world 1 100"]
  by (simp add: example_tracker_def)

subsection \<open>\<^verbatim>\<open>preprocess\<close>\<close>

lemma dark_row_thresholds_to_zero:
  "\<forall>p \<in> set row. p \<le> 80 \<Longrightarrow>
   filter (\<lambda>p. p \<noteq> 0) (map (\<lambda>p. if real p > 80 then 255 else 0) row) = ([]::nat list)"
  by (induction row) auto

lemma countNonZero_dark:
  "\<forall>row \<in> set g. \<forall>p \<in> set row. p \<le> 80 \<Longrightarrow> countNonZero (threshold g 80 255) = 0"
proof (induction g)
  case Nil
  show ?case by (simp add: countNonZero_def threshold_def)
next
  case (Cons row g)
  have "filter (\<lambda>p. p \<noteq> 0) (map (\<lambda>p. if real p > 80 then 255 else 0) row) = ([]::nat list)"
    using Cons.prems by (intro dark_row_thresholds_to_zero) simp
  moreover have "countNonZero (threshold g 80 255) = 0"
    using Cons by simp
  ultimately show ?case
    by (simp add: countNonZero_def threshold_def)
qed

lemma blur_check_below_total:
  fixes n :: int
  assumes "0 < n"
  shows "\<lfloor>real_of_int n * 0.99996744\<rfloor> < n"
proof -
  have "real_of_int n * 0.99996744 < real_of_int n" using assms by simp
  then show ?thesis by (simp add: floor_less_iff)
qed

text \<open>C5: a frame with at least one pixel whose luminance nowhere exceeds the
  brightness cutoff 80 (all dark, so every pixel counts as black and the dark count
  exceeds the upper bound) and whose Laplacian variance is exactly 0 is classified
  \<^verbatim>\<open>"image contains too few stars"\<close>, never \<^verbatim>\<open>"image too blurry"\<close>.\<close>

theorem dark_flat_frame_too_few_stars:
  assumes "shape im = [height, width, channels]"
    and "0 < height" and "0 < width"
    and "\<forall>row \<in> set (cvtColor c im). \<forall>p \<in> set row. p \<le> 80"
    and "Laplacian_var c (cvtColor c im) = 0"
  shows "preprocess c (Some im) = Inr ''image contains too few stars'' \<and>
         preprocess c (Some im) \<noteq> Inr ''image too blurry''"
proof -
  have cnt: "countNonZero (threshold (cvtColor c im) 80 255) = 0"
    using assms(4) by (rule countNonZero_dark)
  have pos: "0 < int height * int width" using assms(2,3) by simp
  have "\<lfloor>real_of_int (int height * int width) * 0.99996744\<rfloor> < int height * int width"
    using pos by (rule blur_check_below_total)
  then have "preprocess c (Some im) = Inr ''image contains too few stars''"
    using assms(1,5) cnt by (simp add: preprocess_def Let_def)
  then show ?thesis by simp
qed

theorem dark_flat_frame_too_few_stars_witness:
  "shape frame_dark = [2, 2, 3] \<and>
   cvtColor (example_cv 0) frame_dark = [[0, 0], [0, 0]] \<and>
   Laplacian_var (example_cv 0) (cvtColor (example_cv 0) frame_dark) = 0 \<and>
   preprocess (example_cv 0) (Some frame_dark) = Inr ''image contains too few stars'' \<and>
   preprocess (example_cv 0) (Some frame_dark) \<noteq> Inr ''image too blurry''"
proof -
  have sh: "shape frame_dark = [2, 2, 3]" by (rule shape_frames)
  have dark: "\<forall>row \<in> set (cvtColor (example_cv 0) frame_dark). \<forall>p \<in> set row. p \<le> 80"
    by (simp add: gray_dark)
  have flat: "Laplacian_var (example_cv 0) (cvtColor (example_cv 0) frame_dark) = 0"
    by (simp add: example_cv_def)
  have "preprocess (example_cv 0) (Some frame_dark) = Inr ''image contains too few stars'' \<and>
        preprocess (example_cv 0) (Some frame_dark) \<noteq> Inr ''image too blurry''"
    using sh _ _ dark flat by (rule dark_flat_frame_too_few_stars) simp_all
  then show ?thesis using sh flat by (simp add: gray_dark)
qed

subsection \<open>\<^verbatim>\<open>solve\<close>\<close>

lemma broadcast_dims_same: "broadcast_dims ds ds"
  by (induction ds) simp_all

lemma broadcastable_same: "broadcastable sh sh"
  by (simp add: broadcastable_def broadcast_dims_same)

lemma subtract_median_fits:
  assumes "MEDIAN_IMAGE self = Some median"
    and "broadcastable (shape img) (shape median)"
  shows "subtract_median self c img = Inr (clip_subtract c img median)"
  using assms by (simp add: subtract_median_def)

lemma solve_after_subtraction:
  assumes "subtract_median self (cv e) img = Inr res"
  shows "solve self e (Some img) =
           (case generate_match self (engine e) (detect_stars e res) of
              Some m \<Rightarrow>
                Inr (get_dec (winner m), get_ra (winner m), get_ori (winner m), Module ''time'')
            | None \<Rightarrow> Inr (0, 0, 0, Module ''time''))"
  using assms by (simp add: solve_def split: option.splits)

lemma env_parts:
  "cv (example_env lis near k t0) = example_cv 0"
  "engine (example_env lis near k t0) = example_beast lis near"
  "outside (example_env lis near k t0) = example_world k t0"
  by (simp_all add: example_env_def)

lemma example_subtract:
  "subtract_median (example_tracker d) (example_cv blur) frame_good = Inr frame_good"
  "subtract_median (example_tracker d) (example_cv blur) frame_large = Inl ValueError"
  "subtract_median ((example_tracker d)\<lparr>MEDIAN_IMAGE := None\<rparr>) c img = Inl TypeError"
  by (simp_all add: subtract_median_def example_tracker_def example_cv_def shape_frames
      broadcastable_def)

text \<open>C3 as the claim states it, refuted: \<^verbatim>\<open>solve\<close> does not return for every
  frame. With the two by two median image loaded, the frame of four by four pixels
  makes the subtraction of line 165 raise \<^verbatim>\<open>ValueError\<close>; and when the median
  image could not be read, line 165 raises \<^verbatim>\<open>TypeError\<close> for every frame.\<close>

theorem solve_raises_in_median_subtraction:
  "MEDIAN_IMAGE (example_tracker None) = Some frame_dark \<and>
   shape frame_dark = [2, 2, 3] \<and> shape frame_large = [4, 4, 3] \<and>
   solve (example_tracker None) env_good (Some frame_large) = Inl ValueError \<and>
   solve ((example_tracker None)\<lparr>MEDIAN_IMAGE := None\<rparr>) env_good (Some frame_good) =
     Inl TypeError"
proof -
  have large: "solve (example_tracker None) env_good (Some frame_large) = Inl ValueError"
    by (simp add: solve_def env_good_def env_parts example_subtract)
  have unread: "solve ((example_tracker None)\<lparr>MEDIAN_IMAGE := None\<rparr>) env_good (Some frame_good) =
                  Inl TypeError"
    by (simp add: solve_def example_subtract)
  have med: "MEDIAN_IMAGE (example_tracker None) = Some frame_dark"
    by (simp add: example_tracker_def)
  show ?thesis using large unread med by (simp add: shape_frames)
qed

text \<open>C3, amended: for every frame whose shape fits the shape of the loaded median
  image by numpy's rule (every frame of the median image's own shape does),
  \<^verbatim>\<open>solve\<close> returns a solution and raises nothing, the OpenCV and engine calls
  taken as returning. When a matching stage does not clear its bar (the coarse match
  needs a confidence above \<^verbatim>\<open>P_MATCH_THRESH\<close> and at least
  \<^verbatim>\<open>REQUIRED_STARS\<close> matched stars, the refined match the same confidence) the
  result is the invalid solution, which this code writes as the three angles 0.0; in
  particular so when the coarse match is accepted and the refined one is not.\<close>

theorem solve_invalid_when_a_stage_fails:
  fixes self :: StarTracker and e :: env and img :: image and median :: image
  defines "stars \<equiv> detect_stars e (clip_subtract (cv e) img median)"
  defines "lis \<equiv> coarse_match self (engine e) stars"
  defines "near \<equiv> refined_match (engine e) stars lis"
  defines "coarse_ok \<equiv> p_match lis > P_MATCH_THRESH self \<and>
                       winner_size (winner lis) \<ge> REQUIRED_STARS (engine e)"
  defines "refined_ok \<equiv> p_match near > P_MATCH_THRESH self"
  assumes "MEDIAN_IMAGE self = Some median"
    and "broadcastable (shape img) (shape median)"
  shows "(\<exists>d r o'. solve self e (Some img) = Inr (d, r, o', Module ''time'')) \<and>
         (\<not> coarse_ok \<or> \<not> refined_ok \<longrightarrow>
            solve self e (Some img) = Inr (0, 0, 0, Module ''time'')) \<and>
         (coarse_ok \<and> \<not> refined_ok \<longrightarrow>
            solve self e (Some img) = Inr (0, 0, 0, Module ''time''))"
proof -
  have sub: "subtract_median self (cv e) img = Inr (clip_subtract (cv e) img median)"
    using assms(6,7) by (rule subtract_median_fits)
  have eq: "solve self e (Some img) =
           (case generate_match self (engine e) stars of
              Some m \<Rightarrow>
                Inr (get_dec (winner m), get_ra (winner m), get_ori (winner m), Module ''time'')
            | None \<Rightarrow> Inr (0, 0, 0, Module ''time''))"
    unfolding stars_def using sub by (rule solve_after_subtraction)
  have returns: "\<exists>d r o'. solve self e (Some img) = Inr (d, r, o', Module ''time'')"
    by (simp add: eq split: option.splits)
  have invalid: "solve self e (Some img) = Inr (0, 0, 0, Module ''time'')"
    if "\<not> coarse_ok \<or> \<not> refined_ok"
  proof -
    have "generate_match self (engine e) stars = None"
      using that unfolding coarse_ok_def refined_ok_def near_def lis_def
      by (auto simp: generate_match_def Let_def)
    then show ?thesis
      by (simp add: eq)
  qed
  show ?thesis using returns invalid by blast
qed

theorem solve_invalid_when_a_stage_fails_witness:
  "MEDIAN_IMAGE (example_tracker None) = Some frame_dark \<and>
   broadcastable (shape frame_good) (shape frame_dark) \<and>
   (P_MATCH_THRESH (example_tracker None) < p_match (example_match 1 1 2 3) \<and>
    REQUIRED_STARS (engine env_refined_refused) \<le> winner_size (winner (example_match 1 1 2 3))) \<and>
   \<not> P_MATCH_THRESH (example_tracker None) < p_match (example_match 0.5 1 2 3) \<and>
   solve (example_tracker None) env_refined_refused (Some frame_good) = Inr (0, 0, 0, Module ''time'')"
proof -
  have med: "MEDIAN_IMAGE (example_tracker None) = Some frame_dark"
    by (simp add: example_tracker_def)
  have fits: "broadcastable (shape frame_good) (shape frame_dark)"
    by (simp add: shape_frames broadcastable_same)
  have bar: "P_MATCH_THRESH (example_tracker None) = 0.99"
    by (simp add: example_tracker_def)
  have req: "REQUIRED_STARS (engine env_refined_refused) = 5"
    by (simp add: env_refined_refused_def example_env_def example_beast_def)
  have m: "p_match (example_match p a b c) = p" "winner_size (winner (example_match p a b c)) = 6"
    for p a b c
    by (simp_all add: example_match_def)
  show ?thesis
    using solve_invalid_when_a_stage_fails [OF med fits, of env_refined_refused] med fits
    by (simp add: example_coarse example_refined bar req m)
qed

lemma generate_match_example:
  "generate_match (example_tracker d) (example_beast (example_match p a b c) near) stars =
     (if p > 0.99 \<and> p_match near > 0.99 then Some near else None)"
  by (simp add: generate_match_def coarse_match_def refined_match_def example_beast_def
      example_tracker_def sky_db_def example_match_def Let_def)

lemma solve_example:
  "solve (example_tracker d) (example_env (example_match p a b c) near k t0) (Some frame_good) =
     (if p > 0.99 \<and> p_match near > 0.99
      then Inr (get_dec (winner near), get_ra (winner near), get_ori (winner near), Module ''time'')
      else Inr (0, 0, 0, Module ''time''))"
proof -
  have "subtract_median (example_tracker d)
          (cv (example_env (example_match p a b c) near k t0)) frame_good = Inr frame_good"
    by (simp add: env_parts example_subtract)
  then show ?thesis
    by (simp add: solve_after_subtraction env_parts generate_match_example)
qed

lemma env_solve:
  "solve (example_tracker d) env_good (Some frame_good) = Inr (1, 2, 3, Module ''time'')"
  "solve (example_tracker d) env_good2 (Some frame_good) = Inr (4, 5, 6, Module ''time'')"
  "solve (example_tracker d) env_zero (Some frame_good) = Inr (0, 0, 0, Module ''time'')"
  "solve (example_tracker d) env_refused (Some frame_good) = Inr (0, 0, 0, Module ''time'')"
  "solve (example_tracker d) env_refined_refused (Some frame_good) =
     Inr (0, 0, 0, Module ''time'')"
  by (simp_all add: env_good_def env_good2_def env_zero_def env_refused_def
      env_refined_refused_def solve_example example_match_sel)

text \<open>C6: the duration component of the result of \<^verbatim>\<open>solve\<close>. On the good frame,
  with the clock read at 100 when \<^verbatim>\<open>solve\<close> starts and at 101 when it ends, the
  fourth component returned is the module \<^verbatim>\<open>time\<close> and not the elapsed time 1.\<close>

theorem solve_returns_module_not_duration:
  "solve (example_tracker None) env_good (Some frame_good) = Inr (1, 2, 3, Module ''time'') \<and>
   time_time (outside env_good) 1 - time_time (outside env_good) 0 = 1 \<and>
   Module ''time'' \<noteq> Float (time_time (outside env_good) 1 - time_time (outside env_good) 0)"
  by (simp add: env_solve, simp add: env_good_def env_parts example_world_def)

section \<open>The worker loop\<close>

subsection \<open>The paths through one iteration\<close>

text \<open>Neither \<^verbatim>\<open>p_solve\<close> nor \<^verbatim>\<open>error\<close> is bound at module level, so both
  failure branches end in \<^verbatim>\<open>NameError\<close> right after the call of
  \<^verbatim>\<open>self.st.error\<close>, in the argument of the logger call.\<close>

lemma rejected_raises: "rejected s tr check = Raised NameError s (tr @ error check)"
  by (simp add: rejected_def load_global_def module_globals_def)

lemma bad_solve_raises: "bad_solve s tr = Raised NameError s (tr @ error ''bad solve'')"
  by (simp add: bad_solve_def load_global_def module_globals_def)

lemma error_events:
  "error ''unsuitable image'' = [Call_error ''unsuitable image'']"
  "error ''bad solve'' = [Call_error ''bad solve'']"
  "error ''image contains too few stars'' =
     [Call_error ''image contains too few stars'', Call_modify ''increase gain'']"
  by (simp_all add: error_def modify_def)

lemma iteration_no_capture:
  assumes "\<not> st_lock s" and "capture (st s) (outside e) = Inl x"
  shows "iteration e s = Raised x (s\<lparr>st_lock := True\<rparr>) [Acquire, Call_capture]"
  using assms by (simp add: iteration_def)

lemma iteration_no_verdict:
  assumes "\<not> st_lock s" and "capture (st s) (outside e) = Inr (path, img)"
    and "preprocess (cv e) img = Inl x"
  shows "iteration e s =
           Raised x (s\<lparr>st_lock := True, p_solve := path\<rparr>) [Acquire, Call_capture, Assign_p_solve path, Call_preprocess]"
  using assms by (simp add: iteration_def)

lemma iteration_rejected:
  assumes "\<not> st_lock s" and "capture (st s) (outside e) = Inr (path, img)"
    and "preprocess (cv e) img = Inr check" and "check \<noteq> ''good''"
  shows "iteration e s =
           rejected (s\<lparr>st_lock := True, p_solve := path\<rparr>)
             [Acquire, Call_capture, Assign_p_solve path, Call_preprocess] check"
  using assms by (simp add: iteration_def)

lemma iteration_bad_solve:
  assumes "\<not> st_lock s" and "capture (st s) (outside e) = Inr (path, img)"
    and "preprocess (cv e) img = Inr ''good''"
    and "solve (st s) e img = Inr (0, 0, 0, l)"
  shows "iteration e s =
           bad_solve (s\<lparr>st_lock := True, p_solve := path, dec := 0, ra := 0, ori := 0, l_solve := l\<rparr>)
             [Acquire, Call_capture, Assign_p_solve path, Call_preprocess, Call_solve,
              Assign_solution 0 0 0 l]"
  using assms by (simp add: iteration_def)

lemma iteration_publish:
  assumes "\<not> st_lock s" and "capture (st s) (outside e) = Inr (path, img)"
    and "preprocess (cv e) img = Inr ''good''"
    and "solve (st s) e img = Inr (d, r, o', l)"
    and "\<not> (d = 0 \<and> r = 0 \<and> o' = 0)"
  shows "iteration e s =
           Continue (s\<lparr>st_lock := False, p_solve := path, dec := d, ra := r, ori := o', l_solve := l,
                        t_solve := time_time (outside e) 2\<rparr>)
             [Acquire, Call_capture, Assign_p_solve path, Call_preprocess, Call_solve,
              Assign_solution d r o' l, Assign_t_solve (time_time (outside e) 2), Release,
              Emit_PropertiesChanged path, Sleep 0.5]"
  using assms by (auto simp: iteration_def Let_def)

lemma solve_of_match:
  assumes "subtract_median self (cv e) im = Inr res"
    and "generate_match self (engine e) (detect_stars e res) = Some m"
  shows "solve self e (Some im) =
           Inr (get_dec (winner m), get_ra (winner m), get_ori (winner m), Module ''time'')"
  using assms by (simp add: solve_after_subtraction)

subsection \<open>The example iterations, evaluated\<close>

lemma capture_samples:
  "capture (example_tracker (Some ''samples/'')) (example_world 0 t0) =
     Inr (Some ''samples/dark.png'', Some frame_dark)"
  "capture (example_tracker (Some ''samples/'')) (example_world 1 t0) =
     Inr (Some ''samples/good.png'', Some frame_good)"
  "capture (example_tracker (Some ''samples/'')) (example_world 2 t0) =
     Inr (Some ''samples/bright.png'', Some frame_bright)"
  "capture (example_tracker (Some ''samples/'')) (example_world 3 t0) =
     Inr (Some ''samples/good2.png'', Some frame_good)"
  "capture (example_tracker (Some ''samples/'')) (example_world (Suc 0) t0) =
     Inr (Some ''samples/good.png'', Some frame_good)"
  by (simp_all add: capture_def example_tracker_def example_world_def)

lemma laplacian_example: "Laplacian_var (example_cv blur) g = blur"
  by (simp add: example_cv_def)

lemma preprocess_frames:
  "preprocess (example_cv 0) (Some frame_dark) = Inr ''image contains too few stars''"
  "preprocess (example_cv 0) (Some frame_good) = Inr ''good''"
  "preprocess (example_cv 0) (Some frame_bright) = Inr ''unsuitable image''"
  by (simp_all add: preprocess_def shape_frames gray_dark gray_good gray_bright threshold_def
      countNonZero_def laplacian_example)

lemma preprocess_None: "preprocess c None = Inl AttributeError"
  by (simp add: preprocess_def)

lemma server_parts:
  "st server_samples = example_tracker (Some ''samples/'')" "\<not> st_lock server_samples"
  "st server_live = example_tracker None" "\<not> st_lock server_live"
  "st server_solved = example_tracker (Some ''samples/'')" "\<not> st_lock server_solved"
  "st_running server_samples" "st_running server_live" "st_running server_solved"
  by (simp_all add: server_samples_def server_live_def server_solved_def init_def)

lemma env_capture:
  "capture (example_tracker (Some ''samples/'')) (outside env_good) =
     Inr (Some ''samples/good.png'', Some frame_good)"
  "capture (example_tracker (Some ''samples/'')) (outside env_zero) =
     Inr (Some ''samples/good.png'', Some frame_good)"
  "capture (example_tracker (Some ''samples/'')) (outside env_refused) =
     Inr (Some ''samples/good.png'', Some frame_good)"
  "capture (example_tracker (Some ''samples/'')) (outside env_refined_refused) =
     Inr (Some ''samples/good.png'', Some frame_good)"
  "capture (example_tracker (Some ''samples/'')) (outside env_good2) =
     Inr (Some ''samples/good2.png'', Some frame_good)"
  "capture (example_tracker (Some ''samples/'')) (outside env_dark) =
     Inr (Some ''samples/dark.png'', Some frame_dark)"
  "capture (example_tracker (Some ''samples/'')) (outside env_bright) =
     Inr (Some ''samples/bright.png'', Some frame_bright)"
  by (simp_all add: env_good_def env_zero_def env_refused_def env_refined_refused_def
      env_good2_def env_dark_def env_bright_def env_parts capture_samples)

lemma env_cv:
  "cv env_good = example_cv 0" "cv env_zero = example_cv 0" "cv env_refused = example_cv 0"
  "cv env_refined_refused = example_cv 0" "cv env_good2 = example_cv 0"
  "cv env_dark = example_cv 0" "cv env_bright = example_cv 0"
  by (simp_all add: env_good_def env_zero_def env_refused_def env_refined_refused_def
      env_good2_def env_dark_def env_bright_def env_parts)

lemma env_clock:
  "time_time (outside env_good) 2 = 102" "time_time (outside env_good2) 2 = 202"
  by (simp_all add: env_good_def env_good2_def env_parts example_world_def)

lemma env_generate_match:
  "generate_match (example_tracker d) (engine env_good) stars = Some (example_match 1 1 2 3)"
  "generate_match (example_tracker d) (engine env_zero) stars = Some (example_match 1 0 0 0)"
  "generate_match (example_tracker d) (engine env_refused) stars = None"
  by (simp_all add: env_good_def env_zero_def env_refused_def env_parts generate_match_example
      example_match_sel)

lemma not_ended:
  "\<not> end_called (outside env_good)" "\<not> end_called (outside env_bright)"
  "\<not> end_called (outside env_refused)" "\<not> end_called (outside env_good2)"
  by (simp_all add: env_good_def env_bright_def env_refused_def env_good2_def env_parts
      example_world_def)

lemma iteration_env_good:
  "iteration env_good server_samples =
     Continue server_solved
       [Acquire, Call_capture, Assign_p_solve (Some ''samples/good.png''), Call_preprocess, Call_solve,
              Assign_solution 1 2 3 (Module ''time''), Assign_t_solve 102, Release,
        Emit_PropertiesChanged (Some ''samples/good.png''), Sleep 0.5]"
proof -
  have c: "capture (st server_samples) (outside env_good) =
             Inr (Some ''samples/good.png'', Some frame_good)"
    by (simp add: server_parts env_capture)
  have p: "preprocess (cv env_good) (Some frame_good) = Inr ''good''"
    by (simp add: env_cv preprocess_frames)
  have v: "solve (st server_samples) env_good (Some frame_good) = Inr (1, 2, 3, Module ''time'')"
    by (simp add: server_parts env_solve)
  have "iteration env_good server_samples =
          Continue (server_samples\<lparr>st_lock := False, p_solve := Some ''samples/good.png'',
                      dec := 1, ra := 2, ori := 3, l_solve := Module ''time'',
                      t_solve := time_time (outside env_good) 2\<rparr>)
            [Acquire, Call_capture, Assign_p_solve (Some ''samples/good.png''), Call_preprocess, Call_solve,
              Assign_solution 1 2 3 (Module ''time''), Assign_t_solve (time_time (outside env_good) 2), Release,
             Emit_PropertiesChanged (Some ''samples/good.png''), Sleep 0.5]"
    using server_parts(2) c p v by (rule iteration_publish) simp
  then show ?thesis
    by (simp add: server_solved_def server_samples_def init_def env_clock)
qed

lemma iteration_env_good2:
  "iteration env_good2 server_solved =
     Continue (server_solved\<lparr>dec := 4, ra := 5, ori := 6, t_solve := 202,
                 p_solve := Some ''samples/good2.png''\<rparr>)
       [Acquire, Call_capture, Assign_p_solve (Some ''samples/good2.png''), Call_preprocess, Call_solve,
              Assign_solution 4 5 6 (Module ''time''), Assign_t_solve 202, Release,
        Emit_PropertiesChanged (Some ''samples/good2.png''), Sleep 0.5]"
proof -
  have c: "capture (st server_solved) (outside env_good2) =
             Inr (Some ''samples/good2.png'', Some frame_good)"
    by (simp add: server_parts env_capture)
  have p: "preprocess (cv env_good2) (Some frame_good) = Inr ''good''"
    by (simp add: env_cv preprocess_frames)
  have v: "solve (st server_solved) env_good2 (Some frame_good) = Inr (4, 5, 6, Module ''time'')"
    by (simp add: server_parts env_solve)
  have "iteration env_good2 server_solved =
          Continue (server_solved\<lparr>st_lock := False, p_solve := Some ''samples/good2.png'',
                      dec := 4, ra := 5, ori := 6, l_solve := Module ''time'',
                      t_solve := time_time (outside env_good2) 2\<rparr>)
            [Acquire, Call_capture, Assign_p_solve (Some ''samples/good2.png''), Call_preprocess, Call_solve,
              Assign_solution 4 5 6 (Module ''time''), Assign_t_solve (time_time (outside env_good2) 2), Release,
             Emit_PropertiesChanged (Some ''samples/good2.png''), Sleep 0.5]"
    using server_parts(6) c p v by (rule iteration_publish) simp
  then show ?thesis
    by (simp add: server_solved_def server_samples_def init_def env_clock)
qed

lemma iteration_env_live:
  "iteration e server_live =
     Raised AttributeError (server_live\<lparr>st_lock := True, p_solve := None\<rparr>)
       [Acquire, Call_capture, Assign_p_solve None, Call_preprocess]"
proof -
  have c: "capture (st server_live) (outside e) = Inr (None, None)"
    by (simp add: server_parts capture_def example_tracker_def)
  show ?thesis
    using server_parts(4) c preprocess_None by (rule iteration_no_verdict)
qed

lemma iteration_env_bright:
  assumes "st s = example_tracker (Some ''samples/'')" and "\<not> st_lock s"
  shows "iteration env_bright s =
           Raised NameError (s\<lparr>st_lock := True, p_solve := Some ''samples/bright.png''\<rparr>)
             [Acquire, Call_capture, Assign_p_solve (Some ''samples/bright.png''), Call_preprocess, Call_error ''unsuitable image'']"
proof -
  have c: "capture (st s) (outside env_bright) = Inr (Some ''samples/bright.png'', Some frame_bright)"
    by (simp add: assms env_capture)
  have p: "preprocess (cv env_bright) (Some frame_bright) = Inr ''unsuitable image''"
    by (simp add: env_cv preprocess_frames)
  have "iteration env_bright s =
          rejected (s\<lparr>st_lock := True, p_solve := Some ''samples/bright.png''\<rparr>)
            [Acquire, Call_capture, Assign_p_solve (Some ''samples/bright.png''), Call_preprocess] ''unsuitable image''"
    using assms(2) c p by (rule iteration_rejected) simp
  then show ?thesis by (simp add: rejected_raises error_events)
qed

lemma iteration_zero_solution:
  assumes "st s = example_tracker (Some ''samples/'')" and "\<not> st_lock s"
    and "capture (st s) (outside e) = Inr (Some ''samples/good.png'', Some frame_good)"
    and "cv e = example_cv 0"
    and "solve (st s) e (Some frame_good) = Inr (0, 0, 0, Module ''time'')"
  shows "iteration e s =
           Raised NameError
             (s\<lparr>st_lock := True, p_solve := Some ''samples/good.png'', dec := 0, ra := 0, ori := 0,
                 l_solve := Module ''time''\<rparr>)
             [Acquire, Call_capture, Assign_p_solve (Some ''samples/good.png''), Call_preprocess, Call_solve,
              Assign_solution 0 0 0 (Module ''time''), Call_error ''bad solve'']"
proof -
  have p: "preprocess (cv e) (Some frame_good) = Inr ''good''"
    by (simp add: assms(4) preprocess_frames)
  have "iteration e s =
          bad_solve (s\<lparr>st_lock := True, p_solve := Some ''samples/good.png'', dec := 0, ra := 0,
                        ori := 0, l_solve := Module ''time''\<rparr>)
            [Acquire, Call_capture, Assign_p_solve (Some ''samples/good.png''), Call_preprocess, Call_solve,
              Assign_solution 0 0 0 (Module ''time'')]"
    using assms(2,3) p assms(5) by (rule iteration_bad_solve)
  then show ?thesis by (simp add: bad_solve_raises error_events)
qed

lemma iteration_env_refused:
  assumes "st s = example_tracker (Some ''samples/'')" and "\<not> st_lock s"
  shows "iteration env_refused s =
           Raised NameError
             (s\<lparr>st_lock := True, p_solve := Some ''samples/good.png'', dec := 0, ra := 0, ori := 0,
                 l_solve := Module ''time''\<rparr>)
             [Acquire, Call_capture, Assign_p_solve (Some ''samples/good.png''), Call_preprocess, Call_solve,
              Assign_solution 0 0 0 (Module ''time''), Call_error ''bad solve'']"
  using assms by (intro iteration_zero_solution) (simp_all add: env_capture env_cv env_solve)

lemma iteration_env_zero:
  assumes "st s = example_tracker (Some ''samples/'')" and "\<not> st_lock s"
  shows "iteration env_zero s =
           Raised NameError
             (s\<lparr>st_lock := True, p_solve := Some ''samples/good.png'', dec := 0, ra := 0, ori := 0,
                 l_solve := Module ''time''\<rparr>)
             [Acquire, Call_capture, Assign_p_solve (Some ''samples/good.png''), Call_preprocess, Call_solve,
              Assign_solution 0 0 0 (Module ''time''), Call_error ''bad solve'']"
  using assms by (intro iteration_zero_solution) (simp_all add: env_capture env_cv env_solve)

subsection \<open>Failures of a single frame\<close>

text \<open>C1: whatever the outcome of a frame, the loop recovers and goes on to the next
  capture. The code does not: without a frame (no sample directory, so \<^verbatim>\<open>capture\<close>
  returns \<^verbatim>\<open>None\<close>) \<^verbatim>\<open>preprocess\<close> raises \<^verbatim>\<open>AttributeError\<close>; with the
  verdict \<^verbatim>\<open>"unsuitable image"\<close> and with a refused match the loop raises
  \<^verbatim>\<open>NameError\<close>. Each time the exception ends the loop with the lock held, and the
  second frame of the run is never captured.\<close>

theorem loop_dies_on_frame_failure:
  "star_tracker [env_good, env_good2] server_live =
     Raised AttributeError (server_live\<lparr>st_lock := True, p_solve := None\<rparr>)
       [Acquire, Call_capture, Assign_p_solve None, Call_preprocess] \<and>
   star_tracker [env_bright, env_good] server_samples =
     Raised NameError (server_samples\<lparr>st_lock := True, p_solve := Some ''samples/bright.png''\<rparr>)
       [Acquire, Call_capture, Assign_p_solve (Some ''samples/bright.png''), Call_preprocess,
        Call_error ''unsuitable image''] \<and>
   star_tracker [env_refused, env_good] server_samples =
     Raised NameError
       (server_samples\<lparr>st_lock := True, p_solve := Some ''samples/good.png'', dec := 0, ra := 0,
                        ori := 0, l_solve := Module ''time''\<rparr>)
       [Acquire, Call_capture, Assign_p_solve (Some ''samples/good.png''), Call_preprocess,
        Call_solve, Assign_solution 0 0 0 (Module ''time''), Call_error ''bad solve'']"
  by (simp add: not_ended server_parts iteration_env_live iteration_env_bright
      iteration_env_refused)

text \<open>C9: an error notification with the verdict or the failure tag on every rejected
  and every failed cycle. The code emits none: the trace of the rejected cycle and of
  the failed cycle end with the call of \<^verbatim>\<open>self.st.error\<close>, before the line
  \<^verbatim>\<open>error(check)\<close>, which names a global that does not exist instead of the
  signal \<^verbatim>\<open>self.error\<close>.\<close>

theorem no_error_signal_on_failure:
  "trace_of (iteration env_bright server_samples) =
     [Acquire, Call_capture, Assign_p_solve (Some ''samples/bright.png''), Call_preprocess,
      Call_error ''unsuitable image''] \<and>
   Emit_error ''unsuitable image'' \<notin> set (trace_of (iteration env_bright server_samples)) \<and>
   trace_of (iteration env_refused server_samples) =
     [Acquire, Call_capture, Assign_p_solve (Some ''samples/good.png''), Call_preprocess,
      Call_solve, Assign_solution 0 0 0 (Module ''time''), Call_error ''bad solve''] \<and>
   Emit_error ''bad solve'' \<notin> set (trace_of (iteration env_refused server_samples))"
  by (simp add: server_parts iteration_env_bright iteration_env_refused)

subsection \<open>Reading the record\<close>

text \<open>C2: a read of the current record returns the five fields of one solve. The one
  property that reads the five fields under a single acquisition of the lock,
  \<^verbatim>\<open>last_solve\<close>, raises \<^verbatim>\<open>UnboundLocalError\<close> and leaves the lock held, after
  which \<^verbatim>\<open>coor\<close> waits for ever. The other two properties take the lock one after
  the other: \<^verbatim>\<open>coor\<close> read after the first solve returns its angles and timestamp,
  and \<^verbatim>\<open>filepath\<close> read after the next solve returns the second frame's path.\<close>

theorem last_solve_raises:
  "state_of (iteration env_good server_samples) = server_solved \<and>
   last_solve server_solved = (Raises UnboundLocalError, server_solved\<lparr>st_lock := True\<rparr>) \<and>
   fst (coor (snd (last_solve server_solved))) = Waits \<and>
   fst (coor server_solved) = Returns (1, 2, 3, 102) \<and>
   fst (filepath (state_of (iteration env_good2 server_solved))) =
     Returns (Some ''samples/good2.png'')"
  by (simp add: iteration_env_good iteration_env_good2 last_solve_def coor_def filepath_def
      server_parts, simp add: server_solved_def server_samples_def init_def)

subsection \<open>The all-zero solution\<close>

text \<open>C4 as the claim states it, refuted: in \<open>env_zero\<close> both matches are accepted
  and the three angles of the solution are 0; the loop handles the frame exactly as it
  handles the frame of \<open>env_refused\<close>, where no match is accepted, and calls
  \<^verbatim>\<open>self.st.error("bad solve")\<close>.\<close>

theorem zero_valid_solution_treated_as_failed:
  "subtract_median (st server_samples) (cv env_zero) frame_good = Inr frame_good \<and>
   generate_match (st server_samples) (engine env_zero)
     (detect_stars env_zero frame_good) = Some (example_match 1 0 0 0) \<and>
   generate_match (st server_samples) (engine env_refused)
     (detect_stars env_refused frame_good) = None \<and>
   iteration env_zero server_samples = iteration env_refused server_samples \<and>
   Call_error ''bad solve'' \<in> set (trace_of (iteration env_zero server_samples))"
  by (simp add: server_parts env_cv example_subtract env_generate_match iteration_env_zero
      iteration_env_refused)

text \<open>C4, amended: the solution carries no validity flag. When a match is accepted
  on a good frame (the median image subtracted, both stages passed), the loop treats the result as a failed solve exactly when
  declination, right ascension and orientation are all 0.0, and publishes it exactly
  when one of them is not 0.0.\<close>

theorem zero_triple_decides_failure:
  assumes "\<not> st_lock s"
    and "capture (st s) (outside e) = Inr (path, Some im)"
    and "preprocess (cv e) (Some im) = Inr ''good''"
    and "subtract_median (st s) (cv e) im = Inr res"
    and "generate_match (st s) (engine e) (detect_stars e res) = Some m"
  shows "(Call_error ''bad solve'' \<in> set (trace_of (iteration e s))) =
           (get_dec (winner m) = 0 \<and> get_ra (winner m) = 0 \<and> get_ori (winner m) = 0) \<and>
         (Emit_PropertiesChanged path \<in> set (trace_of (iteration e s))) =
           (\<not> (get_dec (winner m) = 0 \<and> get_ra (winner m) = 0 \<and> get_ori (winner m) = 0))"
proof -
  have v: "solve (st s) e (Some im) =
             Inr (get_dec (winner m), get_ra (winner m), get_ori (winner m), Module ''time'')"
    using assms(4,5) by (rule solve_of_match)
  show ?thesis
  proof (cases "get_dec (winner m) = 0 \<and> get_ra (winner m) = 0 \<and> get_ori (winner m) = 0")
    case True
    then have v0: "solve (st s) e (Some im) = Inr (0, 0, 0, Module ''time'')"
      using v by simp
    have "iteration e s =
            bad_solve (s\<lparr>st_lock := True, p_solve := path, dec := 0, ra := 0, ori := 0,
                          l_solve := Module ''time''\<rparr>)
              [Acquire, Call_capture, Assign_p_solve path, Call_preprocess, Call_solve,
               Assign_solution 0 0 0 (Module ''time'')]"
      using assms(1,2,3) v0 by (rule iteration_bad_solve)
    then show ?thesis using True by (simp add: bad_solve_raises error_events)
  next
    case False
    have "iteration e s =
            Continue (s\<lparr>st_lock := False, p_solve := path, dec := get_dec (winner m),
                         ra := get_ra (winner m), ori := get_ori (winner m),
                         l_solve := Module ''time'', t_solve := time_time (outside e) 2\<rparr>)
              [Acquire, Call_capture, Assign_p_solve path, Call_preprocess, Call_solve,
               Assign_solution (get_dec (winner m)) (get_ra (winner m)) (get_ori (winner m))
                 (Module ''time''),
               Assign_t_solve (time_time (outside e) 2), Release,
               Emit_PropertiesChanged path, Sleep 0.5]"
      using assms(1,2,3) v False by (rule iteration_publish)
    then show ?thesis using False by simp
  qed
qed

theorem zero_triple_decides_failure_witness:
  "\<not> st_lock server_samples \<and>
   capture (st server_samples) (outside env_good) =
     Inr (Some ''samples/good.png'', Some frame_good) \<and>
   preprocess (cv env_good) (Some frame_good) = Inr ''good'' \<and>
   subtract_median (st server_samples) (cv env_good) frame_good = Inr frame_good \<and>
   generate_match (st server_samples) (engine env_good)
     (detect_stars env_good frame_good) = Some (example_match 1 1 2 3) \<and>
   Call_error ''bad solve'' \<notin> set (trace_of (iteration env_good server_samples)) \<and>
   Emit_PropertiesChanged (Some ''samples/good.png'')
     \<in> set (trace_of (iteration env_good server_samples))"
proof -
  have l: "\<not> st_lock server_samples" by (rule server_parts)
  have c: "capture (st server_samples) (outside env_good) =
             Inr (Some ''samples/good.png'', Some frame_good)"
    by (simp add: server_parts env_capture)
  have p: "preprocess (cv env_good) (Some frame_good) = Inr ''good''"
    by (simp add: env_cv preprocess_frames)
  have m: "subtract_median (st server_samples) (cv env_good) frame_good = Inr frame_good"
    by (simp add: server_parts env_cv example_subtract)
  have g: "generate_match (st server_samples) (engine env_good)
             (detect_stars env_good frame_good) = Some (example_match 1 1 2 3)"
    by (simp add: server_parts env_generate_match)
  show ?thesis
    using zero_triple_decides_failure [OF l c p m g] l c p m g by (simp add: example_match_sel)
qed

subsection \<open>The lock\<close>

lemma work_under_lock:
  assumes "\<not> st_lock s"
  shows "\<forall>(ev, h) \<in> set (held_during False (trace_of (iteration e s))).
           ev \<in> {Call_capture, Call_preprocess, Call_solve} \<or> is_assignment ev \<longrightarrow> h"
  using assms
  by (auto simp: iteration_def rejected_raises bad_solve_raises error_def modify_def Let_def
      split: sum.splits prod.splits)

lemma acquire_first:
  assumes "\<not> st_lock s"
  shows "\<exists>rest. trace_of (iteration e s) = Acquire # Call_capture # rest"
  using assms
  by (auto simp: iteration_def rejected_raises bad_solve_raises Let_def
      split: sum.splits prod.splits)

text \<open>C7 as the claim states it, refuted: in the cycle that publishes the good frame
  the lock is held while \<^verbatim>\<open>capture\<close>, \<^verbatim>\<open>preprocess\<close> and \<^verbatim>\<open>solve\<close>
  run.\<close>

theorem lock_held_during_capture_and_solve:
  "(Call_capture, True) \<in> set (held_during False (trace_of (iteration env_good server_samples))) \<and>
   (Call_preprocess, True) \<in> set (held_during False (trace_of (iteration env_good server_samples))) \<and>
   (Call_solve, True) \<in> set (held_during False (trace_of (iteration env_good server_samples)))"
  by (simp add: iteration_env_good)

text \<open>C7, amended: in every iteration that starts with the lock free, the lock is
  acquired before the capture and held while capture, classification and solve run
  and while a field of the record is written; in a cycle that publishes, the source
  identifier, the solution and the solve timestamp are written under the lock, the
  lock is released after the timestamp is written and before the change
  notification, and the backoff sleep of that cycle happens outside the lock.\<close>

theorem lock_spans_capture_to_timestamp:
  assumes "\<not> st_lock s"
  shows "(\<exists>rest. trace_of (iteration e s) = Acquire # Call_capture # rest) \<and>
         (\<forall>(ev, h) \<in> set (held_during False (trace_of (iteration e s))).
            ev \<in> {Call_capture, Call_preprocess, Call_solve} \<or> is_assignment ev \<longrightarrow> h) \<and>
         (\<forall>path img d r o' l.
            capture (st s) (outside e) = Inr (path, img) \<and>
            preprocess (cv e) img = Inr ''good'' \<and>
            solve (st s) e img = Inr (d, r, o', l) \<and> \<not> (d = 0 \<and> r = 0 \<and> o' = 0) \<longrightarrow>
            held_during False (trace_of (iteration e s)) =
              [(Acquire, True), (Call_capture, True), (Assign_p_solve path, True),
               (Call_preprocess, True), (Call_solve, True),
               (Assign_solution d r o' l, True),
               (Assign_t_solve (time_time (outside e) 2), True),
               (Release, False), (Emit_PropertiesChanged path, False), (Sleep 0.5, False)] \<and>
            state_of (iteration e s) =
              s\<lparr>st_lock := False, p_solve := path, dec := d, ra := r, ori := o', l_solve := l,
                 t_solve := time_time (outside e) 2\<rparr>)"
proof -
  have first: "\<exists>rest. trace_of (iteration e s) = Acquire # Call_capture # rest"
    using assms by (rule acquire_first)
  have work: "\<forall>(ev, h) \<in> set (held_during False (trace_of (iteration e s))).
          ev \<in> {Call_capture, Call_preprocess, Call_solve} \<or> is_assignment ev \<longrightarrow> h"
    using assms by (rule work_under_lock)
  have publish:
    "held_during False (trace_of (iteration e s)) =
          [(Acquire, True), (Call_capture, True), (Assign_p_solve path, True),
           (Call_preprocess, True), (Call_solve, True),
           (Assign_solution d r o' l, True),
           (Assign_t_solve (time_time (outside e) 2), True),
           (Release, False), (Emit_PropertiesChanged path, False), (Sleep 0.5, False)] \<and>
     state_of (iteration e s) =
          s\<lparr>st_lock := False, p_solve := path, dec := d, ra := r, ori := o', l_solve := l,
             t_solve := time_time (outside e) 2\<rparr>"
    if a: "capture (st s) (outside e) = Inr (path, img) \<and>
           preprocess (cv e) img = Inr ''good'' \<and>
           solve (st s) e img = Inr (d, r, o', l) \<and> \<not> (d = 0 \<and> r = 0 \<and> o' = 0)"
    for path img d r o' l
  proof -
    from a have c: "capture (st s) (outside e) = Inr (path, img)"
      and p: "preprocess (cv e) img = Inr ''good''"
      and v: "solve (st s) e img = Inr (d, r, o', l)"
      and nz: "\<not> (d = 0 \<and> r = 0 \<and> o' = 0)"
      by blast+
    have it: "iteration e s =
            Continue (s\<lparr>st_lock := False, p_solve := path, dec := d, ra := r, ori := o',
                         l_solve := l, t_solve := time_time (outside e) 2\<rparr>)
              [Acquire, Call_capture, Assign_p_solve path, Call_preprocess, Call_solve,
               Assign_solution d r o' l, Assign_t_solve (time_time (outside e) 2), Release,
               Emit_PropertiesChanged path, Sleep 0.5]"
      using assms c p v nz by (rule iteration_publish)
    show ?thesis by (simp add: it)
  qed
  show ?thesis using first work publish by blast
qed

theorem lock_spans_capture_to_timestamp_witness:
  "\<not> st_lock server_samples \<and>
   capture (st server_samples) (outside env_good) =
     Inr (Some ''samples/good.png'', Some frame_good) \<and>
   preprocess (cv env_good) (Some frame_good) = Inr ''good'' \<and>
   solve (st server_samples) env_good (Some frame_good) = Inr (1, 2, 3, Module ''time'') \<and>
   held_during False (trace_of (iteration env_good server_samples)) =
     [(Acquire, True), (Call_capture, True), (Assign_p_solve (Some ''samples/good.png''), True),
      (Call_preprocess, True), (Call_solve, True),
      (Assign_solution 1 2 3 (Module ''time''), True),
      (Assign_t_solve 102, True),
      (Release, False), (Emit_PropertiesChanged (Some ''samples/good.png''), False),
      (Sleep 0.5, False)] \<and>
   state_of (iteration env_good server_samples) = server_solved"
proof -
  have l: "\<not> st_lock server_samples" by (rule server_parts)
  have c: "capture (st server_samples) (outside env_good) =
             Inr (Some ''samples/good.png'', Some frame_good)"
    by (simp add: server_parts env_capture)
  have p: "preprocess (cv env_good) (Some frame_good) = Inr ''good''"
    by (simp add: env_cv preprocess_frames)
  have v: "solve (st server_samples) env_good (Some frame_good) = Inr (1, 2, 3, Module ''time'')"
    by (simp add: server_parts env_solve)
  have "held_during False (trace_of (iteration env_good server_samples)) =
     [(Acquire, True), (Call_capture, True), (Assign_p_solve (Some ''samples/good.png''), True),
      (Call_preprocess, True), (Call_solve, True),
      (Assign_solution 1 2 3 (Module ''time''), True),
      (Assign_t_solve (time_time (outside env_good) 2), True),
      (Release, False), (Emit_PropertiesChanged (Some ''samples/good.png''), False),
      (Sleep 0.5, False)] \<and>
     state_of (iteration env_good server_samples) =
       server_samples\<lparr>st_lock := False, p_solve := Some ''samples/good.png'', dec := 1, ra := 2,
                       ori := 3, l_solve := Module ''time'',
                       t_solve := time_time (outside env_good) 2\<rparr>"
    using lock_spans_capture_to_timestamp [OF l, of env_good] c p v by fastforce
  then show ?thesis using l c p v
    by (simp add: env_clock server_solved_def server_samples_def init_def)
qed

subsection \<open>What the failure paths write\<close>

text \<open>C8 as the claim states it, refuted: after a published solve of
  \<^verbatim>\<open>samples/good.png\<close> with angles 1, 2, 3, a rejected frame replaces the source
  identifier, and a failed solve replaces the three angles by 0.\<close>

theorem failure_paths_write_the_record:
  "p_solve server_solved = Some ''samples/good.png'' \<and>
   p_solve (state_of (iteration env_bright server_solved)) = Some ''samples/bright.png'' \<and>
   dec server_solved = 1 \<and> ra server_solved = 2 \<and> ori server_solved = 3 \<and>
   dec (state_of (iteration env_refused server_solved)) = 0 \<and>
   ra (state_of (iteration env_refused server_solved)) = 0 \<and>
   ori (state_of (iteration env_refused server_solved)) = 0"
  by (simp add: server_parts iteration_env_bright iteration_env_refused, simp add: server_solved_def)

text \<open>C8, amended: on a rejected frame the loop leaves the angles, the duration and
  the solve timestamp as they were and has replaced the source identifier by the
  captured frame's; on a failed solve (the solver returned the three angles 0.0) it
  leaves the solve timestamp as it was and has replaced the source identifier and
  written the three angles 0.0.\<close>

theorem failure_paths_keep_timestamp:
  assumes "\<not> st_lock s"
    and "capture (st s) (outside e) = Inr (path, img)"
    and "preprocess (cv e) img = Inr check"
  shows "(check \<noteq> ''good'' \<longrightarrow>
            dec (state_of (iteration e s)) = dec s \<and>
            ra (state_of (iteration e s)) = ra s \<and>
            ori (state_of (iteration e s)) = ori s \<and>
            l_solve (state_of (iteration e s)) = l_solve s \<and>
            t_solve (state_of (iteration e s)) = t_solve s \<and>
            p_solve (state_of (iteration e s)) = path) \<and>
         (check = ''good'' \<and> (\<exists>l. solve (st s) e img = Inr (0, 0, 0, l)) \<longrightarrow>
            dec (state_of (iteration e s)) = 0 \<and>
            ra (state_of (iteration e s)) = 0 \<and>
            ori (state_of (iteration e s)) = 0 \<and>
            t_solve (state_of (iteration e s)) = t_solve s \<and>
            p_solve (state_of (iteration e s)) = path)"
proof -
  have rej: "dec (state_of (iteration e s)) = dec s \<and>
            ra (state_of (iteration e s)) = ra s \<and>
            ori (state_of (iteration e s)) = ori s \<and>
            l_solve (state_of (iteration e s)) = l_solve s \<and>
            t_solve (state_of (iteration e s)) = t_solve s \<and>
            p_solve (state_of (iteration e s)) = path"
    if "check \<noteq> ''good''"
  proof -
    have "iteration e s =
        rejected (s\<lparr>st_lock := True, p_solve := path\<rparr>)
          [Acquire, Call_capture, Assign_p_solve path, Call_preprocess] check"
      using assms that by (rule iteration_rejected)
    then have "state_of (iteration e s) = s\<lparr>st_lock := True, p_solve := path\<rparr>"
      by (simp add: rejected_raises)
    then show ?thesis by simp
  qed
  have bad: "dec (state_of (iteration e s)) = 0 \<and>
            ra (state_of (iteration e s)) = 0 \<and>
            ori (state_of (iteration e s)) = 0 \<and>
            t_solve (state_of (iteration e s)) = t_solve s \<and>
            p_solve (state_of (iteration e s)) = path"
    if a: "check = ''good'' \<and> (\<exists>l. solve (st s) e img = Inr (0, 0, 0, l))"
  proof -
    from a obtain l where v: "solve (st s) e img = Inr (0, 0, 0, l)" by blast
    have p: "preprocess (cv e) img = Inr ''good''" using a assms(3) by simp
    have "iteration e s =
            bad_solve (s\<lparr>st_lock := True, p_solve := path, dec := 0, ra := 0, ori := 0, l_solve := l\<rparr>)
              [Acquire, Call_capture, Assign_p_solve path, Call_preprocess, Call_solve,
               Assign_solution 0 0 0 l]"
      using assms(1,2) p v by (rule iteration_bad_solve)
    then have "state_of (iteration e s) =
                 s\<lparr>st_lock := True, p_solve := path, dec := 0, ra := 0, ori := 0, l_solve := l\<rparr>"
      by (simp add: bad_solve_raises)
    then show ?thesis by simp
  qed
  show ?thesis using rej bad by blast
qed

theorem failure_paths_keep_timestamp_witness:
  "\<not> st_lock server_solved \<and>
   capture (st server_solved) (outside env_bright) =
     Inr (Some ''samples/bright.png'', Some frame_bright) \<and>
   preprocess (cv env_bright) (Some frame_bright) = Inr ''unsuitable image'' \<and>
   ''unsuitable image'' \<noteq> ''good'' \<and>
   dec (state_of (iteration env_bright server_solved)) = 1 \<and>
   ra (state_of (iteration env_bright server_solved)) = 2 \<and>
   ori (state_of (iteration env_bright server_solved)) = 3 \<and>
   l_solve (state_of (iteration env_bright server_solved)) = Module ''time'' \<and>
   t_solve (state_of (iteration env_bright server_solved)) = 102 \<and>
   p_solve (state_of (iteration env_bright server_solved)) = Some ''samples/bright.png'' \<and>
   capture (st server_solved) (outside env_refused) =
     Inr (Some ''samples/good.png'', Some frame_good) \<and>
   preprocess (cv env_refused) (Some frame_good) = Inr ''good'' \<and>
   solve (st server_solved) env_refused (Some frame_good) = Inr (0, 0, 0, Module ''time'') \<and>
   dec (state_of (iteration env_refused server_solved)) = 0 \<and>
   ra (state_of (iteration env_refused server_solved)) = 0 \<and>
   ori (state_of (iteration env_refused server_solved)) = 0 \<and>
   t_solve (state_of (iteration env_refused server_solved)) = 102 \<and>
   p_solve (state_of (iteration env_refused server_solved)) = Some ''samples/good.png''"
proof -
  have l: "\<not> st_lock server_solved" by (rule server_parts)
  have c1: "capture (st server_solved) (outside env_bright) =
              Inr (Some ''samples/bright.png'', Some frame_bright)"
    by (simp add: server_parts env_capture)
  have p1: "preprocess (cv env_bright) (Some frame_bright) = Inr ''unsuitable image''"
    by (simp add: env_cv preprocess_frames)
  have c2: "capture (st server_solved) (outside env_refused) =
              Inr (Some ''samples/good.png'', Some frame_good)"
    by (simp add: server_parts env_capture)
  have p2: "preprocess (cv env_refused) (Some frame_good) = Inr ''good''"
    by (simp add: env_cv preprocess_frames)
  have v2: "solve (st server_solved) env_refused (Some frame_good) = Inr (0, 0, 0, Module ''time'')"
    by (simp add: server_parts env_solve)
  have old: "dec server_solved = 1" "ra server_solved = 2" "ori server_solved = 3"
    "l_solve server_solved = Module ''time''" "t_solve server_solved = 102"
    by (simp_all add: server_solved_def)
  show ?thesis
    using failure_paths_keep_timestamp [OF l c1 p1] failure_paths_keep_timestamp [OF l c2 p2]
      l c1 p1 c2 p2 v2 old
    by simp
qed

end
